theory Spec2Isabelle
  imports Complex_Main "HOL-Library.Sublist"
begin

section \<open>Python values, exceptions and strings\<close>

text \<open>
  The scripts handle dynamically typed data (parsed JSON and YAML). A value is one of
  Python's \<open>None\<close>, a boolean, a number, a string, a list, or a dictionary with string
  keys, kept as an association list in insertion order. A number is a float, held as
  its exact value, which is a rational. What the float operations of Python return
  (\<open>sum\<close>, \<open>/\<close>, \<open>round\<close>) is not computed in this development: they are parameters.

  A string is a list of characters, each standing for a Unicode code point below 256;
  code points above that range are outside this development.
\<close>

datatype pyval =
    PyNone
  | PyBool bool
  | PyNum rat
  | PyStr string
  | PyList "pyval list"
  | PyDict "(string \<times> pyval) list"

text \<open>
  Exceptions derived from Python's \<open>Exception\<close> class, the ones an
  \<open>except Exception\<close> clause catches. \<open>OtherException\<close> carries the text of any other
  one (network failure, authentication failure, not found, ...).
\<close>

datatype exn =
    FileNotFoundError
  | JSONDecodeError
  | AttributeError
  | TypeError
  | ValueError
  | ZeroDivisionError
  | OtherException string

text \<open>\<open>d.get(k)\<close>: the value of the first binding of the key, if there is one.\<close>

definition dict_get :: "(string \<times> pyval) list \<Rightarrow> string \<Rightarrow> pyval option" where
  "dict_get d k = map_of d k"

text \<open>\<open>d.get(k, default)\<close>.\<close>

definition dict_get_default :: "(string \<times> pyval) list \<Rightarrow> string \<Rightarrow> pyval \<Rightarrow> pyval" where
  "dict_get_default d k dflt = (case map_of d k of Some v \<Rightarrow> v | None \<Rightarrow> dflt)"

text \<open>
  \<open>str.isspace\<close> on one code point below 256: tab, line feed, vertical tab, form feed,
  carriage return, the four separators 28 to 31, space, next line (133) and no-break
  space (160).
\<close>

definition isspace :: "char \<Rightarrow> bool" where
  "isspace c =
     (let n = (of_char c :: nat)
      in (9 \<le> n \<and> n \<le> 13) \<or> (28 \<le> n \<and> n \<le> 32) \<or> n = 133 \<or> n = 160)"

text \<open>\<open>str.strip()\<close>: whitespace removed at both ends.\<close>

definition strip :: "string \<Rightarrow> string" where
  "strip s = rev (dropWhile isspace (rev (dropWhile isspace s)))"

section \<open>Dataset Loader (evaluate.py, load_dataset_from_jsonl)\<close>

text \<open>
  The file system as the loader sees it: \<open>open(path)\<close> either raises or gives a file,
  and iterating the file yields its lines one at a time, each read either raising (an
  I/O or decoding error) or giving the text of the line. \<open>json.loads\<close> belongs to the
  standard library and is a parameter: it raises or returns the parsed value.
\<close>

type_synonym file_system = "string \<Rightarrow> exn + (exn + string) list"

type_synonym json_parser = "string \<Rightarrow> exn + pyval"

text \<open>
  The body of the \<open>with\<close> block: the \<open>for line in f\<close> loop with its accumulator
  \<open>examples\<close>. An exception leaves the loop at once.
\<close>

fun read_lines :: "json_parser \<Rightarrow> (exn + string) list \<Rightarrow> pyval list \<Rightarrow> exn + pyval list" where
  "read_lines json_loads [] examples = Inr examples"
| "read_lines json_loads (Inl e # rest) examples = Inl e"
| "read_lines json_loads (Inr raw # rest) examples =
     (let line = strip raw
      in if line \<noteq> []
         then (case json_loads line of
                 Inl e \<Rightarrow> Inl e
               | Inr example \<Rightarrow> read_lines json_loads rest (examples @ [example]))
         else read_lines json_loads rest examples)"

text \<open>The \<open>try\<close> block, before its handlers.\<close>

definition load_dataset_try :: "file_system \<Rightarrow> json_parser \<Rightarrow> string \<Rightarrow> exn + pyval list" where
  "load_dataset_try fopen json_loads jsonl_path =
     (case fopen jsonl_path of
        Inl e \<Rightarrow> Inl e
      | Inr f \<Rightarrow> read_lines json_loads f [])"

text \<open>
  The function with its three handlers, in the source's order: \<open>FileNotFoundError\<close>,
  \<open>json.JSONDecodeError\<close>, then any other \<open>Exception\<close>. Each returns the empty list.
\<close>

definition load_dataset_from_jsonl :: "file_system \<Rightarrow> json_parser \<Rightarrow> string \<Rightarrow> pyval list" where
  "load_dataset_from_jsonl fopen json_loads jsonl_path =
     (case load_dataset_try fopen json_loads jsonl_path of
        Inr examples \<Rightarrow> examples
      | Inl FileNotFoundError \<Rightarrow> []
      | Inl JSONDecodeError \<Rightarrow> []
      | Inl e \<Rightarrow> [])"

text \<open>
  The reference definition, following the specification's words: when the file opens,
  every line can be read and every non-blank line parses, the result is the parsed
  values of the non-blank lines in file order; in every other case it is empty.
\<close>

definition nonblank_lines :: "(exn + string) list \<Rightarrow> string list" where
  "nonblank_lines f = filter (\<lambda>l. l \<noteq> []) (map (\<lambda>r. strip (projr r)) f)"

definition load_dataset_reference :: "file_system \<Rightarrow> json_parser \<Rightarrow> string \<Rightarrow> pyval list" where
  "load_dataset_reference fopen json_loads jsonl_path =
     (case fopen jsonl_path of
        Inl e \<Rightarrow> []
      | Inr f \<Rightarrow>
          if list_all (\<lambda>r. \<not> isl r) f \<and>
             list_all (\<lambda>l. \<not> isl (json_loads l)) (nonblank_lines f)
          then map (\<lambda>l. projr (json_loads l)) (nonblank_lines f)
          else [])"

section \<open>Prompt templates\<close>

text \<open>
  A chat prompt template as the scripts see it: an ordered list of message templates.
  Of each message the code reads the name of its class, its \<open>prompt\<close> attribute (absent
  on some message kinds) and, on that, the \<open>template\<close> attribute (absent on some prompt
  kinds); \<open>str(msg)\<close> is the fallback text.
\<close>

datatype prompt_part = StringPrompt string | OtherPrompt

record message_template =
  class_name :: string
  prompt :: "prompt_part option"
  str_of :: string

type_synonym chat_prompt_template = "message_template list"

section \<open>Example Runner (evaluate.py, evaluate_prompt_on_example)\<close>

text \<open>
  A dataset example: \<open>inputs\<close> and \<open>outputs\<close> are attributes that may be missing
  (\<open>hasattr\<close>), and when present hold any value.
\<close>

record example =
  inputs :: "pyval option"
  outputs :: "pyval option"

record evaluation_result =
  answer :: string
  reference :: pyval
  question :: pyval

text \<open>
  The language-model client in a chain with a prompt template:
  \<open>(prompt_template | llm).invoke(inputs).content\<close>, which raises (template rendering
  error, model or network error, a response without \<open>content\<close>) or gives the text.
\<close>

type_synonym llm = "chat_prompt_template \<Rightarrow> pyval \<Rightarrow> exn + string"

text \<open>\<open>example.attr if hasattr(example, attr) else {}\<close>.\<close>

definition attr_or_empty :: "pyval option \<Rightarrow> pyval" where
  "attr_or_empty a = (case a of Some v \<Rightarrow> v | None \<Rightarrow> PyDict [])"

definition evaluate_prompt_on_example ::
  "chat_prompt_template \<Rightarrow> example \<Rightarrow> llm \<Rightarrow> evaluation_result" where
  "evaluate_prompt_on_example prompt_template example llm =
     (let inputs_v = attr_or_empty (inputs example);
          outputs_v = attr_or_empty (outputs example)
      in case llm prompt_template inputs_v of
           Inl e \<Rightarrow> \<lparr>answer = [], reference = PyStr [], question = PyStr []\<rparr>
         | Inr content \<Rightarrow>
             \<lparr>answer = content,
              reference =
                (case outputs_v of
                   PyDict d \<Rightarrow> dict_get_default d ''reference'' (PyStr [])
                 | _ \<Rightarrow> PyStr []),
              question =
                (case inputs_v of
                   PyDict d \<Rightarrow>
                     dict_get_default d ''question''
                       (dict_get_default d ''bug_report''
                          (dict_get_default d ''pr_title'' (PyStr ''N/A'')))
                 | _ \<Rightarrow> PyStr ''N/A'')\<rparr>)"

section \<open>Aggregator (evaluate.py, evaluate_prompt)\<close>

text \<open>
  The four metric evaluators live in a module that is not part of the sources at hand.
  Each is a parameter: called with the question, the answer and the reference, it
  raises or returns the value under \<open>"score"\<close>. The language model and the evaluators
  call external services, so what they return can differ from one example of a run to
  the next: each is given per position \<open>i\<close> of the example in the loop, the counter of
  \<open>enumerate(..., 1)\<close>.
\<close>

type_synonym evaluator = "pyval \<Rightarrow> string \<Rightarrow> pyval \<Rightarrow> exn + rat"

text \<open>
  The float operations of the interpreter that the aggregation uses, as parameters:
  \<open>sum(xs)\<close> of a list of floats, \<open>x / n\<close> of a float by a positive count, and
  \<open>round(x, 4)\<close>. Each result is a float, and how each rounds is left open.
\<close>

record float_arithmetic =
  float_sum :: "rat list \<Rightarrow> rat"
  float_div :: "rat \<Rightarrow> nat \<Rightarrow> rat"
  float_round4 :: "rat \<Rightarrow> rat"

record services =
  hub_pull :: "string \<Rightarrow> exn + chat_prompt_template"
  list_examples :: "string \<Rightarrow> exn + example list"
  get_llm :: "exn + (nat \<Rightarrow> llm)"
  evaluate_tone_score :: "nat \<Rightarrow> evaluator"
  evaluate_acceptance_criteria_score :: "nat \<Rightarrow> evaluator"
  evaluate_user_story_format_score :: "nat \<Rightarrow> evaluator"
  evaluate_completeness_score :: "nat \<Rightarrow> evaluator"
  float_ops :: float_arithmetic

text \<open>
  \<open>pull_prompt_from_langsmith\<close>: the handler prints its advice and raises the exception
  again, so the caller sees what \<open>hub.pull\<close> did.
\<close>

definition pull_prompt_from_langsmith :: "services \<Rightarrow> string \<Rightarrow> exn + chat_prompt_template" where
  "pull_prompt_from_langsmith sv prompt_name =
     (case hub_pull sv prompt_name of
        Inr pulled \<Rightarrow> Inr pulled
      | Inl e \<Rightarrow> Inl e)"

text \<open>\<open>xs[:m]\<close>: a negative bound counts from the end.\<close>

definition py_slice_to :: "'a list \<Rightarrow> int \<Rightarrow> 'a list" where
  "py_slice_to xs m = (if 0 \<le> m then take (nat m) xs else take (nat (int (length xs) + m)) xs)"

record aggregate_scores =
  tone :: rat
  acceptance_criteria :: rat
  format :: rat
  completeness :: rat

text \<open>
  The state of the loop: the four running lists, and a log of the calls of the Example
  Runner (position, example, result), which the source does not keep and which is here
  to state what the loop did.
\<close>

type_synonym call = "nat \<times> example \<times> evaluation_result"

record running =
  tone_scores :: "rat list"
  acceptance_criteria_scores :: "rat list"
  format_scores :: "rat list"
  completeness_scores :: "rat list"
  runner_calls :: "call list"

definition empty_running :: running where
  "empty_running =
     \<lparr>tone_scores = [], acceptance_criteria_scores = [], format_scores = [],
      completeness_scores = [], runner_calls = []\<rparr>"

text \<open>
  The four evaluator calls of the loop body, in the source's order; the first one that
  raises ends them.
\<close>

definition evaluate_metrics :: "services \<Rightarrow> nat \<Rightarrow> evaluation_result \<Rightarrow> exn + rat \<times> rat \<times> rat \<times> rat" where
  "evaluate_metrics sv i result =
     (let bug_report = question result; user_story = answer result; ref = reference result
      in case evaluate_tone_score sv i bug_report user_story ref of
           Inl e \<Rightarrow> Inl e
         | Inr t \<Rightarrow>
        (case evaluate_acceptance_criteria_score sv i bug_report user_story ref of
           Inl e \<Rightarrow> Inl e
         | Inr a \<Rightarrow>
        (case evaluate_user_story_format_score sv i bug_report user_story ref of
           Inl e \<Rightarrow> Inl e
         | Inr f \<Rightarrow>
        (case evaluate_completeness_score sv i bug_report user_story ref of
           Inl e \<Rightarrow> Inl e
         | Inr c \<Rightarrow> Inr (t, a, f, c)))))"

text \<open>
  The \<open>for i, example in enumerate(..., 1)\<close> loop. The result is the exception that
  left the loop, if any, and the state reached.
\<close>

fun eval_loop ::
  "services \<Rightarrow> chat_prompt_template \<Rightarrow> (nat \<Rightarrow> llm) \<Rightarrow> nat \<Rightarrow> example list \<Rightarrow> running
   \<Rightarrow> exn option \<times> running" where
  "eval_loop sv prompt_template llm i [] s = (None, s)"
| "eval_loop sv prompt_template llm i (example # rest) s =
     (let result = evaluate_prompt_on_example prompt_template example (llm i);
          s1 = s\<lparr>runner_calls := runner_calls s @ [(i, example, result)]\<rparr>
      in if answer result \<noteq> []
         then (case evaluate_metrics sv i result of
                 Inl e \<Rightarrow> (Some e, s1)
               | Inr (t, a, f, c) \<Rightarrow>
                   eval_loop sv prompt_template llm (Suc i) rest
                     (s1\<lparr>tone_scores := tone_scores s1 @ [t],
                         acceptance_criteria_scores := acceptance_criteria_scores s1 @ [a],
                         format_scores := format_scores s1 @ [f],
                         completeness_scores := completeness_scores s1 @ [c]\<rparr>))
         else eval_loop sv prompt_template llm (Suc i) rest s1)"

text \<open>\<open>x / n\<close>: a division by zero raises.\<close>

definition py_truediv :: "float_arithmetic \<Rightarrow> rat \<Rightarrow> nat \<Rightarrow> exn + rat" where
  "py_truediv fa x n = (if n = 0 then Inl ZeroDivisionError else Inr (float_div fa x n))"

text \<open>\<open>sum(xs) / len(xs) if xs else 0.0\<close>.\<close>

definition average :: "float_arithmetic \<Rightarrow> rat list \<Rightarrow> exn + rat" where
  "average fa xs = (if xs \<noteq> [] then py_truediv fa (float_sum fa xs) (length xs) else Inr 0)"

definition all_zero :: aggregate_scores where
  "all_zero = \<lparr>tone = 0, acceptance_criteria = 0, format = 0, completeness = 0\<rparr>"

text \<open>
  What follows the loop: the four averages, in the source's order, and the dictionary
  of their values rounded to four decimals.
\<close>

definition aggregate :: "float_arithmetic \<Rightarrow> running \<Rightarrow> exn + aggregate_scores" where
  "aggregate fa s =
     (case average fa (tone_scores s) of
        Inl e \<Rightarrow> Inl e
      | Inr avg_tone \<Rightarrow>
     (case average fa (acceptance_criteria_scores s) of
        Inl e \<Rightarrow> Inl e
      | Inr avg_acceptance \<Rightarrow>
     (case average fa (format_scores s) of
        Inl e \<Rightarrow> Inl e
      | Inr avg_format \<Rightarrow>
     (case average fa (completeness_scores s) of
        Inl e \<Rightarrow> Inl e
      | Inr avg_completeness \<Rightarrow>
          Inr \<lparr>tone = float_round4 fa avg_tone,
               acceptance_criteria = float_round4 fa avg_acceptance,
               format = float_round4 fa avg_format,
               completeness = float_round4 fa avg_completeness\<rparr>))))"

text \<open>
  \<open>evaluate_prompt\<close>, with the log of runner calls beside the returned scores. Any
  exception inside the \<open>try\<close> block is answered with the all-zero scores.
\<close>

definition evaluate_prompt_run ::
  "services \<Rightarrow> string \<Rightarrow> string \<Rightarrow> int
   \<Rightarrow> aggregate_scores \<times> call list" where
  "evaluate_prompt_run sv prompt_name dataset_name max_examples =
     (case pull_prompt_from_langsmith sv prompt_name of
        Inl e \<Rightarrow> (all_zero, [])
      | Inr prompt_template \<Rightarrow>
     (case list_examples sv dataset_name of
        Inl e \<Rightarrow> (all_zero, [])
      | Inr examples \<Rightarrow>
     (case get_llm sv of
        Inl e \<Rightarrow> (all_zero, [])
      | Inr llm \<Rightarrow>
     (case eval_loop sv prompt_template llm 1 (py_slice_to examples max_examples) empty_running of
        (Some e, s) \<Rightarrow> (all_zero, runner_calls s)
      | (None, s) \<Rightarrow>
          (case aggregate (float_ops sv) s of
             Inl e \<Rightarrow> (all_zero, runner_calls s)
           | Inr scores \<Rightarrow> (scores, runner_calls s))))))"

definition evaluate_prompt :: "services \<Rightarrow> string \<Rightarrow> string \<Rightarrow> int \<Rightarrow> aggregate_scores" where
  "evaluate_prompt sv prompt_name dataset_name max_examples =
     fst (evaluate_prompt_run sv prompt_name dataset_name max_examples)"

text \<open>The log of runner calls of a run.\<close>

definition run_calls :: "services \<Rightarrow> string \<Rightarrow> string \<Rightarrow> int \<Rightarrow> call list" where
  "run_calls sv prompt_name dataset_name max_examples =
     snd (evaluate_prompt_run sv prompt_name dataset_name max_examples)"

section \<open>Verdict and exit code (evaluate.py, display_results and main)\<close>

text \<open>\<open>scores.values()\<close>, in the order in which \<open>evaluate_prompt\<close> builds the dictionary.\<close>

definition score_values :: "aggregate_scores \<Rightarrow> rat list" where
  "score_values scores = [tone scores, acceptance_criteria scores, format scores, completeness scores]"

text \<open>\<open>display_results\<close> returns \<open>all(score >= 0.9 for score in scores.values())\<close>.\<close>

definition display_results :: "string \<Rightarrow> aggregate_scores \<Rightarrow> bool" where
  "display_results prompt_name scores = list_all (\<lambda>score. 9 / 10 \<le> score) (score_values scores)"

text \<open>
  What \<open>main\<close> runs in: the environment variables, the command-line arguments after
  parsing, \<open>check_env_vars\<close> (of a module that is not part of the sources at hand, a
  parameter), whether \<open>Client()\<close> raises, which paths exist, and the external services.
\<close>

record environment =
  environ :: "string \<Rightarrow> string option"
  arg_prompt :: string
  arg_max_examples :: int
  check_env_vars :: "string list \<Rightarrow> bool"
  client_init :: "exn option"
  path_exists :: "string \<Rightarrow> bool"
  external :: services

text \<open>\<open>os.getenv(k, default)\<close>.\<close>

definition getenv_default :: "environment \<Rightarrow> string \<Rightarrow> string \<Rightarrow> string" where
  "getenv_default env k dflt = (case environ env k of Some v \<Rightarrow> v | None \<Rightarrow> dflt)"

text \<open>\<open>str(os.getenv(k))\<close>, as \<open>print\<close> shows it.\<close>

definition str_getenv :: "environment \<Rightarrow> string \<Rightarrow> string" where
  "str_getenv env k = (case environ env k of Some v \<Rightarrow> v | None \<Rightarrow> ''None'')"

definition required_vars :: "environment \<Rightarrow> string list" where
  "required_vars env =
     (let provider = getenv_default env ''LLM_PROVIDER'' ''openai''
      in [''LANGSMITH_API_KEY'', ''LLM_PROVIDER''] @
         (if provider = ''openai'' then [''OPENAI_API_KEY'']
          else if provider \<in> set [''google'', ''gemini''] then [''GOOGLE_API_KEY'']
          else []))"

text \<open>
  The effects of \<open>main\<close> up to the credential check, in program order: the lines it
  prints (without the final newline) and the call of \<open>check_env_vars\<close>. The characters
  231, 227 and 233 are c-cedilla, a-tilde and e-acute.
\<close>

datatype event = Print string | CheckEnvVars "string list"

record outcome =
  events_head :: "event list"
  returned :: "exn + int"

definition main_events_head :: "environment \<Rightarrow> event list" where
  "main_events_head env =
     [Print (''Executando avalia'' @ [CHR 0xE7, CHR 0xE3] @ ''o dos prompts...''),
      Print (''a chave openai '' @ [CHR 0xE9] @ '' '' @ '' '' @ str_getenv env ''OPENAI_API_KEY''),
      CheckEnvVars (required_vars env)]"

definition dataset_name_of :: "environment \<Rightarrow> string" where
  "dataset_name_of env =
     getenv_default env ''LANGSMITH_PROJECT'' ''prompt-optimization-challenge-resolved'' @ ''-eval''"

text \<open>
  \<open>main\<close>. The call of \<open>create_evaluation_dataset\<close> acts on the remote dataset store
  only, returns in every case and its value is not used; it leaves no trace here.
  The loop over \<open>prompts_to_evaluate\<close> keeps \<open>all_passed\<close>; its handler is never
  entered, since the two calls it guards do not raise.
\<close>

definition main :: "environment \<Rightarrow> outcome" where
  "main env =
     \<lparr>events_head = main_events_head env,
      returned =
        (if \<not> check_env_vars env (required_vars env) then Inr 1
         else case client_init env of
                Some e \<Rightarrow> Inl e
              | None \<Rightarrow>
                  if \<not> path_exists env ''datasets/bug_to_user_story.jsonl'' then Inr 1
                  else
                    let prompts_to_evaluate = [arg_prompt env];
                        all_passed =
                          fold (\<lambda>prompt_name all_passed.
                                  let scores = evaluate_prompt (external env) prompt_name
                                                 (dataset_name_of env) (arg_max_examples env);
                                      passed = display_results prompt_name scores
                                  in all_passed \<and> passed)
                            prompts_to_evaluate True
                    in if all_passed then Inr 0 else Inr 1)\<rparr>"

text \<open>
  \<open>sys.exit(main())\<close>: the status is the value returned, and 1 when an exception
  leaves \<open>main\<close>.
\<close>

definition process_exit_code :: "outcome \<Rightarrow> int" where
  "process_exit_code out = (case returned out of Inr rc \<Rightarrow> rc | Inl e \<Rightarrow> 1)"

section \<open>More of Python: truth values, iteration, string methods\<close>

text \<open>The truth value of a value in a condition (\<open>if not messages\<close>).\<close>

fun py_truthy :: "pyval \<Rightarrow> bool" where
  "py_truthy PyNone = False"
| "py_truthy (PyBool b) = b"
| "py_truthy (PyNum n) = (n \<noteq> 0)"
| "py_truthy (PyStr s) = (s \<noteq> [])"
| "py_truthy (PyList xs) = (xs \<noteq> [])"
| "py_truthy (PyDict d) = (d \<noteq> [])"

text \<open>
  \<open>for x in v\<close>: a list yields its items, a string its characters, a dictionary its
  keys (distinct in a dictionary that Python built); anything else raises \<open>TypeError\<close>.
\<close>

fun py_iter :: "pyval \<Rightarrow> exn + pyval list" where
  "py_iter (PyList xs) = Inr xs"
| "py_iter (PyStr s) = Inr (map (\<lambda>c. PyStr [c]) s)"
| "py_iter (PyDict d) = Inr (map (\<lambda>kv. PyStr (fst kv)) d)"
| "py_iter v = Inl TypeError"

text \<open>
  \<open>str.lower()\<close> on code points below 256: the capital letters A to Z and those of
  the range 192 to 222, the multiplication sign 215 apart, move up by 32.
\<close>

definition lower_char :: "char \<Rightarrow> char" where
  "lower_char c =
     (let n = (of_char c :: nat)
      in if (65 \<le> n \<and> n \<le> 90) \<or> (192 \<le> n \<and> n \<le> 222 \<and> n \<noteq> 215)
         then char_of (n + 32) else c)"

definition lower :: "string \<Rightarrow> string" where
  "lower s = map lower_char s"

text \<open>
  \<open>s.replace(old, new)\<close> for a non-empty \<open>old\<close>: from left to right, each occurrence of
  \<open>old\<close> that does not overlap an earlier one becomes \<open>new\<close>. The counter is the number
  of characters of a matched occurrence still to pass over.
\<close>

fun replace_from :: "string \<Rightarrow> string \<Rightarrow> nat \<Rightarrow> string \<Rightarrow> string" where
  "replace_from old new k [] = []"
| "replace_from old new (Suc k) (c # cs) = replace_from old new k cs"
| "replace_from old new 0 (c # cs) =
     (if prefix old (c # cs) then new @ replace_from old new (length old - 1) cs
      else c # replace_from old new 0 cs)"

definition replace :: "string \<Rightarrow> string \<Rightarrow> string \<Rightarrow> string" where
  "replace old new s = replace_from old new 0 s"

text \<open>\<open>s.split(c)\<close> on one character: the pieces between its occurrences, never none.\<close>

fun split_on :: "char \<Rightarrow> string \<Rightarrow> string list" where
  "split_on c [] = [] # []"
| "split_on c (x # xs) =
     (if x = c then [] # split_on c xs
      else (case split_on c xs of
              w # ws \<Rightarrow> (x # w) # ws
            | [] \<Rightarrow> [x] # []))"

section \<open>The prompt registry and the prompt library\<close>

text \<open>
  The registry (hub) holds objects by name; a chat prompt template has the attribute
  \<open>messages\<close>, other objects have not. The calls to the registry and to the prompt
  library are parameters: \<open>ChatPromptTemplate.from_messages\<close> raises or builds a
  template from the (role, content) pairs, and \<open>hub.push\<close> and \<open>hub.pull\<close> can raise
  (authentication, network). A \<open>hub.push\<close> that returns stores the template under the
  name; a \<open>hub.pull\<close> returns what is stored under the name and raises when there is
  nothing.
\<close>

datatype hub_entry = ChatPromptEntry chat_prompt_template | OtherEntry

type_synonym hub = "string \<Rightarrow> hub_entry option"

record library =
  from_messages :: "(pyval \<times> pyval) list \<Rightarrow> exn + chat_prompt_template"
  hub_push_raises :: "string \<Rightarrow> chat_prompt_template \<Rightarrow> pyval \<Rightarrow> pyval \<Rightarrow> exn option"
  hub_pull_raises :: "string \<Rightarrow> exn option"

section \<open>Push (push_prompts.py, push_prompt_to_langsmith and validate_prompt)\<close>

text \<open>
  The loop that builds the (role, content) pairs. \<open>msg.get\<close> raises \<open>AttributeError\<close>
  on a message that is not a dictionary. Every branch of the role dispatch appends
  the pair of the role and the content.
\<close>

fun build_messages :: "pyval list \<Rightarrow> (pyval \<times> pyval) list \<Rightarrow> exn + (pyval \<times> pyval) list" where
  "build_messages [] messages = Inr messages"
| "build_messages (msg # rest) messages =
     (case msg of
        PyDict d \<Rightarrow>
          (let role = dict_get_default d ''role'' (PyStr ''system'');
               content = dict_get_default d ''content'' (PyStr [])
           in if role = PyStr ''system''
              then build_messages rest (messages @ [(PyStr ''system'', content)])
              else if role = PyStr ''human''
              then build_messages rest (messages @ [(PyStr ''human'', content)])
              else if role = PyStr ''ai''
              then build_messages rest (messages @ [(PyStr ''ai'', content)])
              else build_messages rest (messages @ [(role, content)]))
      | _ \<Rightarrow> Inl AttributeError)"

text \<open>
  The metadata: the description, of which \<open>[:50]\<close> is printed, and the tags, made a
  list when a string and given the tag \<open>bug-to-user-story\<close> when it is not in them.
  Values that cannot be sliced, searched or appended to raise.
\<close>

definition push_tags :: "(string \<times> pyval) list \<Rightarrow> exn + pyval" where
  "push_tags prompt_data =
     (case dict_get_default prompt_data ''techniques_applied'' (PyList []) of
        PyStr t \<Rightarrow>
          Inr (PyList (if t = ''bug-to-user-story'' then [PyStr t]
                       else [PyStr t, PyStr ''bug-to-user-story'']))
      | PyList ts \<Rightarrow>
          Inr (PyList (if PyStr ''bug-to-user-story'' \<in> set ts then ts
                       else ts @ [PyStr ''bug-to-user-story'']))
      | PyDict d \<Rightarrow>
          if ''bug-to-user-story'' \<in> set (map fst d) then Inr (PyDict d) else Inl AttributeError
      | _ \<Rightarrow> Inl TypeError)"

definition push_description :: "(string \<times> pyval) list \<Rightarrow> exn + pyval" where
  "push_description prompt_data =
     (case dict_get_default prompt_data ''description''
             (PyStr ''Prompt otimizado para Bug to User Story'') of
        PyStr t \<Rightarrow> Inr (PyStr t)
      | PyList ts \<Rightarrow> Inr (PyList ts)
      | _ \<Rightarrow> Inl TypeError)"

text \<open>
  \<open>push_try\<close> is the \<open>try\<close> block: the registry after the call, or the
  exception; \<open>None\<close> stands for the early \<open>return False\<close> on an empty message list.
\<close>

definition push_try :: "library \<Rightarrow> hub \<Rightarrow> string \<Rightarrow> (string \<times> pyval) list \<Rightarrow> exn + hub option" where
  "push_try lib h prompt_name prompt_data =
     (case py_iter (dict_get_default prompt_data ''messages'' (PyList [])) of
        Inl e \<Rightarrow> Inl e
      | Inr items \<Rightarrow>
     (case build_messages items [] of
        Inl e \<Rightarrow> Inl e
      | Inr messages \<Rightarrow>
          if messages = [] then Inr None
          else
     (case from_messages lib messages of
        Inl e \<Rightarrow> Inl e
      | Inr prompt_template \<Rightarrow>
     (case push_tags prompt_data of
        Inl e \<Rightarrow> Inl e
      | Inr tags \<Rightarrow>
     (case push_description prompt_data of
        Inl e \<Rightarrow> Inl e
      | Inr description \<Rightarrow>
     (case hub_push_raises lib prompt_name prompt_template description tags of
        Some e \<Rightarrow> Inl e
      | None \<Rightarrow> Inr (Some (h(prompt_name \<mapsto> ChatPromptEntry prompt_template)))))))))"

text \<open>
  \<open>push_prompt_to_langsmith\<close>: whether it returns \<open>True\<close>, and the registry afterwards.
  Its handler answers any exception with \<open>False\<close>.
\<close>

definition push_prompt_to_langsmith ::
  "library \<Rightarrow> hub \<Rightarrow> string \<Rightarrow> (string \<times> pyval) list \<Rightarrow> bool \<times> hub" where
  "push_prompt_to_langsmith lib h prompt_name prompt_data =
     (case push_try lib h prompt_name prompt_data of
        Inr (Some h') \<Rightarrow> (True, h')
      | Inr None \<Rightarrow> (False, h)
      | Inl e \<Rightarrow> (False, h))"

text \<open>
  The diagnostics of \<open>validate_prompt\<close>: "Prompt nao contem mensagens", "Prompt nao
  contem system prompt" and "Mensagem i esta vazia" (accents left out here).
\<close>

datatype diagnostic = NoMessages | NoSystemPrompt | EmptyMessage nat

text \<open>
  \<open>any(msg.get("role") == "system" for msg in messages)\<close>: it stops at the first
  message with the role, and \<open>msg.get\<close> raises on a message that is not a dictionary.
\<close>

fun has_system_loop :: "pyval list \<Rightarrow> exn + bool" where
  "has_system_loop [] = Inr False"
| "has_system_loop (msg # rest) =
     (case msg of
        PyDict d \<Rightarrow>
          if dict_get d ''role'' = Some (PyStr ''system'') then Inr True
          else has_system_loop rest
      | _ \<Rightarrow> Inl AttributeError)"

text \<open>
  The loop \<open>for i, msg in enumerate(messages)\<close>: \<open>.strip()\<close> exists on strings only.
\<close>

fun content_loop :: "nat \<Rightarrow> pyval list \<Rightarrow> diagnostic list \<Rightarrow> exn + diagnostic list" where
  "content_loop i [] errors = Inr errors"
| "content_loop i (msg # rest) errors =
     (case msg of
        PyDict d \<Rightarrow>
          (case dict_get_default d ''content'' (PyStr []) of
             PyStr c \<Rightarrow>
               if strip c = [] then content_loop (Suc i) rest (errors @ [EmptyMessage i])
               else content_loop (Suc i) rest errors
           | _ \<Rightarrow> Inl AttributeError)
      | _ \<Rightarrow> Inl AttributeError)"

definition validate_prompt :: "(string \<times> pyval) list \<Rightarrow> exn + bool \<times> diagnostic list" where
  "validate_prompt prompt_data =
     (let messages = dict_get_default prompt_data ''messages'' (PyList []);
          errors1 = (if \<not> py_truthy messages then [NoMessages] else [])
      in case py_iter messages of
           Inl e \<Rightarrow> Inl e
         | Inr items \<Rightarrow>
        (case has_system_loop items of
           Inl e \<Rightarrow> Inl e
         | Inr has_system \<Rightarrow>
        (case content_loop 0 items (errors1 @ (if \<not> has_system then [NoSystemPrompt] else [])) of
           Inl e \<Rightarrow> Inl e
         | Inr errors \<Rightarrow> Inr (length errors = 0, errors))))"

section \<open>Pull (pull_prompts.py, pull_prompts_from_langsmith)\<close>

text \<open>
  One message as a role and a content: the role is the class name without
  \<open>MessagePromptTemplate\<close> and without \<open>Message\<close>, in lower case; the content is the
  template of the prompt, or \<open>str(msg)\<close> when the prompt has none. Reading \<open>msg.prompt\<close>
  raises when the message has no such attribute.
\<close>

definition serialize_message :: "message_template \<Rightarrow> exn + string \<times> string" where
  "serialize_message msg =
     (let role = lower (replace ''Message'' [] (replace ''MessagePromptTemplate'' [] (class_name msg)))
      in case prompt msg of
           None \<Rightarrow> Inl AttributeError
         | Some (StringPrompt t) \<Rightarrow> Inr (role, t)
         | Some OtherPrompt \<Rightarrow> Inr (role, str_of msg))"

fun serialize_loop :: "message_template list \<Rightarrow> (string \<times> string) list \<Rightarrow> exn + (string \<times> string) list" where
  "serialize_loop [] messages = Inr messages"
| "serialize_loop (msg # rest) messages =
     (case serialize_message msg of
        Inl e \<Rightarrow> Inl e
      | Inr msg_dict \<Rightarrow> serialize_loop rest (messages @ [msg_dict]))"

text \<open>The dictionary that is saved as YAML.\<close>

record prompt_dict =
  pd_name :: string
  pd_owner :: string
  pd_messages :: "(string \<times> string) list"

text \<open>
  What the pull runs in: the result of \<open>check_env_vars\<close> and \<open>save_yaml\<close>, which gets
  the dictionary, the output directory and the file name. Both are of a module that is
  not part of the sources at hand.
\<close>

record pull_environment =
  pull_check_env_vars :: bool
  save_yaml :: "prompt_dict \<Rightarrow> string \<Rightarrow> string \<Rightarrow> bool"

definition pull_try ::
  "pull_environment \<Rightarrow> library \<Rightarrow> hub \<Rightarrow> string \<Rightarrow> string \<Rightarrow> exn + prompt_dict option" where
  "pull_try env lib h prompt_name output_dir =
     (if \<not> pull_check_env_vars env then Inr None
      else case hub_pull_raises lib prompt_name of
             Some e \<Rightarrow> Inl e
           | None \<Rightarrow>
          (case h prompt_name of
             None \<Rightarrow> Inl (OtherException ''not found'')
           | Some entry \<Rightarrow>
          (case (case entry of
                   ChatPromptEntry msgs \<Rightarrow> serialize_loop msgs []
                 | OtherEntry \<Rightarrow> Inr []) of
             Inl e \<Rightarrow> Inl e
           | Inr messages \<Rightarrow>
               (let prompt_dict =
                      \<lparr>pd_name = last (split_on CHR ''/'' prompt_name),
                       pd_owner = (if CHR ''/'' \<in> set prompt_name
                                   then hd (split_on CHR ''/'' prompt_name) else ''unknown''),
                       pd_messages = messages\<rparr>
                in if save_yaml env prompt_dict output_dir (pd_name prompt_dict @ ''.yml'')
                   then Inr (Some prompt_dict) else Inr None))))"

text \<open>
  \<open>pull_prompts_from_langsmith\<close>: whether it returns \<open>True\<close>, and with \<open>True\<close> the
  dictionary it saved. Its handlers answer any exception with \<open>False\<close>.
\<close>

definition pull_prompts_from_langsmith ::
  "pull_environment \<Rightarrow> library \<Rightarrow> hub \<Rightarrow> string \<Rightarrow> string \<Rightarrow> bool \<times> prompt_dict option" where
  "pull_prompts_from_langsmith env lib h prompt_name output_dir =
     (case pull_try env lib h prompt_name output_dir of
        Inr (Some saved) \<Rightarrow> (True, Some saved)
      | Inr None \<Rightarrow> (False, None)
      | Inl e \<Rightarrow> (False, None))"

section \<open>Reference definitions for the evaluation pipeline\<close>

text \<open>
  What the loop is meant to compute, stated over the log of runner calls: the calls the
  loop makes on a list of examples from position \<open>i\<close> on, the calls that gave a
  non-empty answer, the score an evaluator gave to a call, whether all four evaluators
  returned a score for a call, and the mean of a list of scores as the float operations
  give it (the sum, divided by the count, rounded to four decimals), zero for no scores.
\<close>

definition runner_trace :: "chat_prompt_template \<Rightarrow> (nat \<Rightarrow> llm) \<Rightarrow> nat \<Rightarrow> example list \<Rightarrow> call list" where
  "runner_trace p llm i xs =
     map (\<lambda>(j, x). (j, x, evaluate_prompt_on_example p x (llm j))) (enumerate i xs)"

definition answered :: "call list \<Rightarrow> call list" where
  "answered calls = filter (\<lambda>(i, x, r). answer r \<noteq> []) calls"

definition score_of :: "(nat \<Rightarrow> evaluator) \<Rightarrow> call \<Rightarrow> rat" where
  "score_of ev = (\<lambda>(i, x, r). projr (ev i (question r) (answer r) (reference r)))"

definition scored :: "services \<Rightarrow> call \<Rightarrow> bool" where
  "scored sv = (\<lambda>(i, x, r).
     \<not> isl (evaluate_tone_score sv i (question r) (answer r) (reference r)) \<and>
     \<not> isl (evaluate_acceptance_criteria_score sv i (question r) (answer r) (reference r)) \<and>
     \<not> isl (evaluate_user_story_format_score sv i (question r) (answer r) (reference r)) \<and>
     \<not> isl (evaluate_completeness_score sv i (question r) (answer r) (reference r)))"


text \<open>
  How far the loop goes: \<open>ys\<close> is the prefix of the examples it reaches; it is all of
  them unless an evaluator raised, which happens on an answered call.
\<close>

definition loop_stops_at ::
  "services \<Rightarrow> chat_prompt_template \<Rightarrow> (nat \<Rightarrow> llm) \<Rightarrow> nat \<Rightarrow> example list \<Rightarrow> running
   \<Rightarrow> example list \<Rightarrow> bool" where
  "loop_stops_at sv p llm i xs s ys \<longleftrightarrow>
     prefix ys xs \<and>
     runner_calls (snd (eval_loop sv p llm i xs s)) = runner_calls s @ runner_trace p llm i ys \<and>
     (fst (eval_loop sv p llm i xs s) = None \<longrightarrow> ys = xs) \<and>
     (fst (eval_loop sv p llm i xs s) \<noteq> None \<longrightarrow>
        (\<exists>c \<in> set (answered (runner_trace p llm i ys)). \<not> scored sv c))"

text \<open>
  The Example Runner's fields in the specification's words: the question is the value
  under the first of the keys \<open>question\<close>, \<open>bug_report\<close>, \<open>pr_title\<close> that is present,
  and \<open>"N/A"\<close> when none is or the inputs are not a mapping; the reference is the value
  under \<open>reference\<close>, and the empty string when the outputs are not a mapping or lack
  the key.
\<close>

definition derive_question :: "pyval \<Rightarrow> pyval" where
  "derive_question v =
     (case v of
        PyDict d \<Rightarrow>
          (case dict_get d ''question'' of
             Some q \<Rightarrow> q
           | None \<Rightarrow>
          (case dict_get d ''bug_report'' of
             Some b \<Rightarrow> b
           | None \<Rightarrow>
          (case dict_get d ''pr_title'' of
             Some t \<Rightarrow> t
           | None \<Rightarrow> PyStr ''N/A'')))
      | _ \<Rightarrow> PyStr ''N/A'')"

definition derive_reference :: "pyval \<Rightarrow> pyval" where
  "derive_reference v =
     (case v of
        PyDict d \<Rightarrow> (case dict_get d ''reference'' of Some r \<Rightarrow> r | None \<Rightarrow> PyStr [])
      | _ \<Rightarrow> PyStr [])"

section \<open>Reference definitions for validation and for the round trip\<close>

text \<open>
  The messages of a prompt-data dictionary, none when the key is missing. A message is
  well formed when it is a mapping whose content, when present, is a string; the
  prompt data are when \<open>messages\<close>, if present, is a list of such messages.
\<close>

definition messages_of :: "(string \<times> pyval) list \<Rightarrow> pyval list" where
  "messages_of prompt_data =
     (case dict_get prompt_data ''messages'' of Some (PyList ms) \<Rightarrow> ms | _ \<Rightarrow> [])"

definition well_formed_message :: "pyval \<Rightarrow> bool" where
  "well_formed_message m =
     (case m of
        PyDict d \<Rightarrow>
          (case dict_get d ''content'' of None \<Rightarrow> True | Some (PyStr c) \<Rightarrow> True | Some _ \<Rightarrow> False)
      | _ \<Rightarrow> False)"

definition well_formed_prompt :: "(string \<times> pyval) list \<Rightarrow> bool" where
  "well_formed_prompt prompt_data =
     (case dict_get prompt_data ''messages'' of
        None \<Rightarrow> True
      | Some (PyList ms) \<Rightarrow> list_all well_formed_message ms
      | Some _ \<Rightarrow> False)"

definition has_system_role :: "pyval \<Rightarrow> bool" where
  "has_system_role m =
     (case m of PyDict d \<Rightarrow> dict_get d ''role'' = Some (PyStr ''system'') | _ \<Rightarrow> False)"

text \<open>The content of a message, empty when there is none.\<close>

definition content_text :: "pyval \<Rightarrow> string" where
  "content_text m =
     (case m of
        PyDict d \<Rightarrow> (case dict_get d ''content'' of Some (PyStr c) \<Rightarrow> c | _ \<Rightarrow> [])
      | _ \<Rightarrow> [])"

text \<open>
  One diagnostic per violated condition: no message, no message with the role
  \<open>system\<close>, and each message whose content is empty once stripped, by its position.
\<close>

definition violations :: "(string \<times> pyval) list \<Rightarrow> diagnostic list" where
  "violations prompt_data =
     (let ms = messages_of prompt_data
      in (if ms = [] then [NoMessages] else []) @
         (if list_ex has_system_role ms then [] else [NoSystemPrompt]) @
         map (\<lambda>im. EmptyMessage (fst im))
           (filter (\<lambda>im. strip (content_text (snd im)) = []) (enumerate 0 ms)))"

text \<open>
  A message of the round trip: a mapping with a role among \<open>system\<close>, \<open>human\<close>, \<open>ai\<close>
  and a string content; and its role and content as a pair.
\<close>

definition chat_message :: "pyval \<Rightarrow> bool" where
  "chat_message m =
     (case m of
        PyDict d \<Rightarrow>
          (case dict_get d ''role'' of
             Some (PyStr r) \<Rightarrow>
               r \<in> set [''system'', ''human'', ''ai''] \<and>
               (case dict_get d ''content'' of Some (PyStr c) \<Rightarrow> True | _ \<Rightarrow> False)
           | _ \<Rightarrow> False)
      | _ \<Rightarrow> False)"

definition message_role :: "pyval \<Rightarrow> string" where
  "message_role m =
     (case m of
        PyDict d \<Rightarrow> (case dict_get d ''role'' of Some (PyStr r) \<Rightarrow> r | _ \<Rightarrow> [])
      | _ \<Rightarrow> [])"

definition message_pair :: "pyval \<Rightarrow> string \<times> string" where
  "message_pair m = (message_role m, content_text m)"

text \<open>The pair as the push hands it to the prompt library.\<close>

definition pair_values :: "pyval \<Rightarrow> pyval \<times> pyval" where
  "pair_values m = (PyStr (message_role m), PyStr (content_text m))"

text \<open>
  What the prompt library is taken to do, for the three roles: it builds one message
  template per pair, in order, of the class named after the role and with the content
  as the template of its prompt.
\<close>

definition role_class :: "string \<Rightarrow> string" where
  "role_class r =
     (if r = ''system'' then ''SystemMessagePromptTemplate''
      else if r = ''human'' then ''HumanMessagePromptTemplate''
      else ''AIMessagePromptTemplate'')"

definition role_pair :: "pyval \<times> pyval \<Rightarrow> bool" where
  "role_pair rc =
     (case rc of
        (PyStr r, PyStr c) \<Rightarrow> r \<in> set [''system'', ''human'', ''ai'']
      | _ \<Rightarrow> False)"

definition built_from :: "pyval \<times> pyval \<Rightarrow> message_template \<Rightarrow> bool" where
  "built_from rc mt =
     (case rc of
        (PyStr r, PyStr c) \<Rightarrow> class_name mt = role_class r \<and> prompt mt = Some (StringPrompt c)
      | _ \<Rightarrow> False)"

definition builds_role_classes :: "((pyval \<times> pyval) list \<Rightarrow> exn + chat_prompt_template) \<Rightarrow> bool" where
  "builds_role_classes fm \<longleftrightarrow>
     (\<forall>pairs t. fm pairs = Inr t \<longrightarrow> list_all role_pair pairs \<longrightarrow> list_all2 built_from pairs t)"

section \<open>Sample data\<close>

text \<open>
  A dataset of three examples; the model fails on the second one; the evaluators give
  fixed scores, the acceptance-criteria one depending on the position.
\<close>

definition demo_example :: "string \<Rightarrow> example" where
  "demo_example q =
     \<lparr>inputs = Some (PyDict [(''bug_report'', PyStr q)]),
      outputs = Some (PyDict [(''reference'', PyStr ''expected'')])\<rparr>"

definition demo_llm :: "nat \<Rightarrow> llm" where
  "demo_llm i = (\<lambda>p v. if v = PyDict [(''bug_report'', PyStr ''down'')]
                        then Inl (OtherException ''timeout'') else Inr ''story'')"

text \<open>
  An arithmetic for the sample runs: sums and quotients without rounding error, and the
  rounding to the nearest multiple of 1/10000, a tie going to the even one.
\<close>

definition decimal_round4 :: "rat \<Rightarrow> rat" where
  "decimal_round4 x =
     (let y = x * 10000; n = \<lfloor>y\<rfloor>; r = y - of_int n
      in of_int (if r < 1 / 2 then n else if 1 / 2 < r then n + 1
                 else if even n then n else n + 1) / 10000)"

definition exact_arithmetic :: float_arithmetic where
  "exact_arithmetic =
     \<lparr>float_sum = sum_list, float_div = (\<lambda>x n. x / of_nat n), float_round4 = decimal_round4\<rparr>"

definition demo_services :: services where
  "demo_services =
     \<lparr>hub_pull = (\<lambda>n. Inr []),
      list_examples = (\<lambda>n. Inr [demo_example ''a'', demo_example ''down'', demo_example ''c'']),
      get_llm = Inr demo_llm,
      evaluate_tone_score = (\<lambda>i q a r. Inr 1),
      evaluate_acceptance_criteria_score = (\<lambda>i q a r. Inr (if i = 1 then 9 / 10 else 4 / 5)),
      evaluate_user_story_format_score = (\<lambda>i q a r. Inr 1),
      evaluate_completeness_score = (\<lambda>i q a r. Inr (1 / 3)),
      float_ops = exact_arithmetic\<rparr>"



text \<open>
  The same services with scores that pass, and an environment for \<open>main\<close> in which the
  credential check fails exactly when the OpenAI key is required and not set.
\<close>

definition passing_services :: services where
  "passing_services =
     demo_services
       \<lparr>evaluate_acceptance_criteria_score := (\<lambda>i q a r. Inr (9 / 10)),
        evaluate_completeness_score := (\<lambda>i q a r. Inr (if i = 1 then 9 / 10 else 90009 / 100000))\<rparr>"

definition demo_environment :: "string option \<Rightarrow> services \<Rightarrow> environment" where
  "demo_environment key sv =
     \<lparr>environ = (\<lambda>k. if k = ''OPENAI_API_KEY'' then key
                      else if k = ''LLM_PROVIDER'' then Some ''openai'' else None),
      arg_prompt = ''owner/prompt'',
      arg_max_examples = 10,
      check_env_vars = (\<lambda>vars. list_all (\<lambda>k. k \<noteq> ''OPENAI_API_KEY'' \<or> key \<noteq> None) vars),
      client_init = None,
      path_exists = (\<lambda>p. True),
      external = sv\<rparr>"
text \<open>
  A prompt library that accepts the three roles only, a registry with no failures, a
  pull environment in which everything succeeds, and a prompt of three messages.
\<close>

definition demo_build :: "pyval \<times> pyval \<Rightarrow> message_template" where
  "demo_build rc =
     (case rc of
        (PyStr r, PyStr c) \<Rightarrow>
          \<lparr>class_name = role_class r, prompt = Some (StringPrompt c), str_of = c\<rparr>
      | _ \<Rightarrow> \<lparr>class_name = [], prompt = None, str_of = []\<rparr>)"

definition demo_library :: library where
  "demo_library =
     \<lparr>from_messages = (\<lambda>pairs. if list_all role_pair pairs then Inr (map demo_build pairs)
                               else Inl ValueError),
      hub_push_raises = (\<lambda>n t d tags. None),
      hub_pull_raises = (\<lambda>n. None)\<rparr>"

definition demo_pull_environment :: pull_environment where
  "demo_pull_environment = \<lparr>pull_check_env_vars = True, save_yaml = (\<lambda>d dir file. True)\<rparr>"

definition demo_messages :: "pyval list" where
  "demo_messages =
     [PyDict [(''role'', PyStr ''system''), (''content'', PyStr ''You are a product manager.'')],
      PyDict [(''role'', PyStr ''human''), (''content'', PyStr ''{bug_report}'')],
      PyDict [(''role'', PyStr ''ai''), (''content'', PyStr ''As a user, I want ...'')]]"

definition demo_prompt_data :: "(string \<times> pyval) list" where
  "demo_prompt_data =
     [(''description'', PyStr ''Bug to user story''),
      (''techniques_applied'', PyList [PyStr ''few-shot'', PyStr ''role'']),
      (''messages'', PyList demo_messages)]"

text \<open>
  A file system with a file of three lines, the second one blank, a file whose second
  line is malformed, and nothing else; and a parser that accepts the lines that start
  with a brace.
\<close>

definition demo_json_loads :: json_parser where
  "demo_json_loads l =
     (case l of
        c # cs \<Rightarrow> if c = CHR ''{'' then Inr (PyStr l) else Inl JSONDecodeError
      | [] \<Rightarrow> Inl JSONDecodeError)"

definition demo_file_system :: file_system where
  "demo_file_system path =
     (if path = ''good.jsonl''
      then Inr [Inr (''{1}'' @ [CHR 0x0A]), Inr ('' '' @ [CHR 0x0A]), Inr (''{2}'' @ [CHR 0x0A])]
      else if path = ''bad.jsonl''
      then Inr [Inr (''{1}'' @ [CHR 0x0A]), Inr (''oops'' @ [CHR 0x0A]), Inr (''{2}'' @ [CHR 0x0A])]
      else Inl FileNotFoundError)"

section \<open>Properties of the Dataset Loader\<close>

lemma read_lines_ok:
  "list_all (\<lambda>r. \<not> isl r) f \<Longrightarrow>
   list_all (\<lambda>l. \<not> isl (json_loads l)) (nonblank_lines f) \<Longrightarrow>
   read_lines json_loads f acc = Inr (acc @ map (\<lambda>l. projr (json_loads l)) (nonblank_lines f))"
proof (induction json_loads f acc rule: read_lines.induct)
  case (1 json_loads examples)
  then show ?case by (simp add: nonblank_lines_def)
next
  case (2 json_loads e rest examples)
  then show ?case by simp
next
  case (3 json_loads raw rest examples)
  show ?case
  proof (cases "strip raw = []")
    case True
    with 3 show ?thesis by (simp add: nonblank_lines_def)
  next
    case False
    with "3.prems" obtain v where v: "json_loads (strip raw) = Inr v"
      by (cases "json_loads (strip raw)") (auto simp: nonblank_lines_def)
    with False 3 show ?thesis by (simp add: nonblank_lines_def)
  qed
qed

lemma read_lines_fail:
  "\<not> (list_all (\<lambda>r. \<not> isl r) f \<and>
      list_all (\<lambda>l. \<not> isl (json_loads l)) (nonblank_lines f)) \<Longrightarrow>
   \<exists>e. read_lines json_loads f acc = Inl e"
proof (induction json_loads f acc rule: read_lines.induct)
  case (1 json_loads examples)
  then show ?case by (simp add: nonblank_lines_def)
next
  case (2 json_loads e rest examples)
  then show ?case by simp
next
  case (3 json_loads raw rest examples)
  show ?case
  proof (cases "strip raw = []")
    case True
    with 3 show ?thesis by (simp add: nonblank_lines_def)
  next
    case False
    show ?thesis
    proof (cases "json_loads (strip raw)")
      case (Inl e)
      with False show ?thesis by simp
    next
      case (Inr v)
      with False 3 show ?thesis by (simp add: nonblank_lines_def)
    qed
  qed
qed

lemma handlers_empty:
  "(case e of FileNotFoundError \<Rightarrow> [] | JSONDecodeError \<Rightarrow> [] | _ \<Rightarrow> []) = ([] :: pyval list)"
  by (cases e) simp_all

text \<open>
  C4. For every path, file system and parser, the loader equals the reference
  definition: the parsed non-blank lines in file order when the file opens, reads and
  parses throughout, and the empty list when the file is missing, a read fails or any
  non-blank line is malformed (the whole result is empty, not the prefix read so far).
\<close>

theorem load_dataset_from_jsonl_refines_reference:
  "load_dataset_from_jsonl fopen json_loads jsonl_path =
   load_dataset_reference fopen json_loads jsonl_path"
proof (cases "fopen jsonl_path")
  case (Inl e)
  then show ?thesis
    by (simp add: load_dataset_from_jsonl_def load_dataset_try_def load_dataset_reference_def
        handlers_empty)
next
  case (Inr f)
  show ?thesis
  proof (cases "list_all (\<lambda>r. \<not> isl r) f \<and>
                list_all (\<lambda>l. \<not> isl (json_loads l)) (nonblank_lines f)")
    case True
    then have "read_lines json_loads f [] =
               Inr (map (\<lambda>l. projr (json_loads l)) (nonblank_lines f))"
      using read_lines_ok [of f json_loads "[]"] by simp
    with Inr True show ?thesis
      by (simp add: load_dataset_from_jsonl_def load_dataset_try_def load_dataset_reference_def)
  next
    case False
    then obtain e where "read_lines json_loads f [] = Inl e"
      using read_lines_fail [of f json_loads "[]"] by blast
    with Inr False show ?thesis
      by (auto simp: load_dataset_from_jsonl_def load_dataset_try_def load_dataset_reference_def
          handlers_empty)
  qed
qed

theorem load_dataset_from_jsonl_refines_reference_witness:
  "load_dataset_reference demo_file_system demo_json_loads ''good.jsonl'' =
     [PyStr ''{1}'', PyStr ''{2}''] \<and>
   load_dataset_reference demo_file_system demo_json_loads ''bad.jsonl'' = [] \<and>
   load_dataset_reference demo_file_system demo_json_loads ''missing.jsonl'' = []"
proof -
  have a: "load_dataset_from_jsonl demo_file_system demo_json_loads ''good.jsonl'' =
           [PyStr ''{1}'', PyStr ''{2}'']"
    by code_simp
  have b: "load_dataset_from_jsonl demo_file_system demo_json_loads ''bad.jsonl'' = []"
    by code_simp
  have c: "load_dataset_from_jsonl demo_file_system demo_json_loads ''missing.jsonl'' = []"
    by code_simp
  show ?thesis
    using a b c
      load_dataset_from_jsonl_refines_reference [of demo_file_system demo_json_loads "''good.jsonl''"]
      load_dataset_from_jsonl_refines_reference [of demo_file_system demo_json_loads "''bad.jsonl''"]
      load_dataset_from_jsonl_refines_reference [of demo_file_system demo_json_loads "''missing.jsonl''"]
    by simp
qed

section \<open>Properties of the loop of the Aggregator\<close>

lemma evaluate_metrics_scored:
  "scored sv (i, x, r) \<Longrightarrow>
   evaluate_metrics sv i r =
     Inr (score_of (evaluate_tone_score sv) (i, x, r),
          score_of (evaluate_acceptance_criteria_score sv) (i, x, r),
          score_of (evaluate_user_story_format_score sv) (i, x, r),
          score_of (evaluate_completeness_score sv) (i, x, r))"
  by (auto simp: scored_def evaluate_metrics_def score_of_def Let_def split: sum.splits)

lemma evaluate_metrics_not_scored:
  "\<not> scored sv (i, x, r) \<Longrightarrow> \<exists>e. evaluate_metrics sv i r = Inl e"
  by (auto simp: scored_def evaluate_metrics_def Let_def split: sum.splits)

lemma runner_trace_Nil [simp]: "runner_trace p llm i [] = []"
  by (simp add: runner_trace_def)

lemma runner_trace_Cons [simp]:
  "runner_trace p llm i (x # xs) =
   (i, x, evaluate_prompt_on_example p x (llm i)) # runner_trace p llm (Suc i) xs"
  by (simp add: runner_trace_def)


lemma eval_loop_skip:
  "answer (evaluate_prompt_on_example p x (llm i)) = [] \<Longrightarrow>
   eval_loop sv p llm i (x # xs) s =
   eval_loop sv p llm (Suc i) xs
     (s\<lparr>runner_calls := runner_calls s @ [(i, x, evaluate_prompt_on_example p x (llm i))]\<rparr>)"
  by (simp add: Let_def)

lemma eval_loop_raise:
  "answer (evaluate_prompt_on_example p x (llm i)) \<noteq> [] \<Longrightarrow>
   evaluate_metrics sv i (evaluate_prompt_on_example p x (llm i)) = Inl e \<Longrightarrow>
   eval_loop sv p llm i (x # xs) s =
   (Some e, s\<lparr>runner_calls := runner_calls s @ [(i, x, evaluate_prompt_on_example p x (llm i))]\<rparr>)"
  by (simp add: Let_def)

lemma eval_loop_score:
  "answer (evaluate_prompt_on_example p x (llm i)) \<noteq> [] \<Longrightarrow>
   evaluate_metrics sv i (evaluate_prompt_on_example p x (llm i)) = Inr (t, a, f, c) \<Longrightarrow>
   eval_loop sv p llm i (x # xs) s =
   eval_loop sv p llm (Suc i) xs
     (s\<lparr>runner_calls := runner_calls s @ [(i, x, evaluate_prompt_on_example p x (llm i))],
        tone_scores := tone_scores s @ [t],
        acceptance_criteria_scores := acceptance_criteria_scores s @ [a],
        format_scores := format_scores s @ [f],
        completeness_scores := completeness_scores s @ [c]\<rparr>)"
  by (simp add: Let_def)




lemma eval_loop_calls: "\<exists>ys. loop_stops_at sv p llm i xs s ys"
proof (induction xs arbitrary: i s)
  case Nil
  show ?case by (rule exI [of _ "[]"]) (simp add: loop_stops_at_def)
next
  case (Cons x xs)
  let ?r = "evaluate_prompt_on_example p x (llm i)"
  let ?s1 = "s\<lparr>runner_calls := runner_calls s @ [(i, x, ?r)]\<rparr>"
  show ?case
  proof (cases "answer ?r = []")
    case True
    from Cons.IH [of "Suc i" ?s1] obtain ys where ys: "loop_stops_at sv p llm (Suc i) xs ?s1 ys" ..
    have "loop_stops_at sv p llm i (x # xs) s (x # ys)"
      using True ys unfolding loop_stops_at_def eval_loop_skip [of p x llm i, OF True]
      by (simp add: answered_def del: eval_loop.simps)
    then show ?thesis ..
  next
    case False
    show ?thesis
    proof (cases "scored sv (i, x, ?r)")
      case no: False
      then obtain e where e: "evaluate_metrics sv i ?r = Inl e"
        using evaluate_metrics_not_scored by blast
      have "loop_stops_at sv p llm i (x # xs) s [x]"
        using False no unfolding loop_stops_at_def eval_loop_raise [of p x llm i, OF False e]
        by (simp add: answered_def del: eval_loop.simps)
      then show ?thesis ..
    next
      case yes: True
      note m = evaluate_metrics_scored [OF yes]
      let ?s2 = "s\<lparr>runner_calls := runner_calls s @ [(i, x, ?r)],
                   tone_scores := tone_scores s @ [score_of (evaluate_tone_score sv) (i, x, ?r)],
                   acceptance_criteria_scores := acceptance_criteria_scores s @ [score_of (evaluate_acceptance_criteria_score sv) (i, x, ?r)],
                   format_scores := format_scores s @ [score_of (evaluate_user_story_format_score sv) (i, x, ?r)],
                   completeness_scores := completeness_scores s @ [score_of (evaluate_completeness_score sv) (i, x, ?r)]\<rparr>"
      from Cons.IH [of "Suc i" ?s2] obtain ys where ys: "loop_stops_at sv p llm (Suc i) xs ?s2 ys" ..
      have "loop_stops_at sv p llm i (x # xs) s (x # ys)"
        using False yes ys unfolding loop_stops_at_def eval_loop_score [of p x llm i, OF False m]
        by (simp add: answered_def del: eval_loop.simps)
      then show ?thesis ..
    qed
  qed
qed


lemma average_returns:
  "average fa xs = Inr (if xs = [] then 0 else float_div fa (float_sum fa xs) (length xs))"
  by (simp add: average_def py_truediv_def)


lemma aggregate_returns: "\<exists>scores. aggregate fa s = Inr scores"
  by (simp add: aggregate_def average_returns)

lemma runner_trace_examples: "map (\<lambda>c. fst (snd c)) (runner_trace p llm i xs) = xs"
  by (induction xs arbitrary: i) simp_all

lemma runner_trace_length: "length (runner_trace p llm i xs) = length xs"
  by (simp add: runner_trace_def)

lemma prefix_py_slice_to: "prefix (py_slice_to xs m) xs"
  by (simp add: py_slice_to_def take_is_prefix)

lemma length_py_slice_to: "0 \<le> m \<Longrightarrow> int (length (py_slice_to xs m)) \<le> m"
  by (simp add: py_slice_to_def)


section \<open>Properties of the verdict and the exit code\<close>

text \<open>
  C1. The verdict of \<open>display_results\<close> is pass exactly when all four scores are at
  least 0.9: four scores of exactly 0.9 pass, a score of 0.8999 fails. The exit code of
  the process is 0 when the setup succeeds and the verdict is pass, and 1 in every
  other case: a failed credential check, a missing dataset file, or a failing verdict.
\<close>

theorem verdict_and_exit_code:
  "(display_results prompt_name scores \<longleftrightarrow>
      9 / 10 \<le> tone scores \<and> 9 / 10 \<le> acceptance_criteria scores \<and>
      9 / 10 \<le> format scores \<and> 9 / 10 \<le> completeness scores) \<and>
   display_results prompt_name
     \<lparr>tone = 9 / 10, acceptance_criteria = 9 / 10, format = 9 / 10, completeness = 9 / 10\<rparr> \<and>
   \<not> display_results prompt_name
     \<lparr>tone = 8999 / 10000, acceptance_criteria = 1, format = 1, completeness = 1\<rparr> \<and>
   process_exit_code (main env) =
     (if check_env_vars env (required_vars env) \<and> client_init env = None \<and>
         path_exists env ''datasets/bug_to_user_story.jsonl'' \<and>
         display_results (arg_prompt env)
           (evaluate_prompt (external env) (arg_prompt env) (dataset_name_of env)
              (arg_max_examples env))
      then 0 else 1)"
  by (auto simp: display_results_def score_values_def process_exit_code_def main_def Let_def
      split: option.splits)


theorem verdict_and_exit_code_witness:
  "process_exit_code (main (demo_environment (Some ''sk-1'') passing_services)) = 0 \<and>
   process_exit_code (main (demo_environment (Some ''sk-1'') demo_services)) = 1 \<and>
   process_exit_code (main (demo_environment None passing_services)) = 1"
proof -
  have a: "check_env_vars (demo_environment (Some ''sk-1'') passing_services)
             (required_vars (demo_environment (Some ''sk-1'') passing_services)) \<and>
           client_init (demo_environment (Some ''sk-1'') passing_services) = None \<and>
           path_exists (demo_environment (Some ''sk-1'') passing_services)
             ''datasets/bug_to_user_story.jsonl'' \<and>
           display_results (arg_prompt (demo_environment (Some ''sk-1'') passing_services))
             (evaluate_prompt (external (demo_environment (Some ''sk-1'') passing_services))
                (arg_prompt (demo_environment (Some ''sk-1'') passing_services))
                (dataset_name_of (demo_environment (Some ''sk-1'') passing_services))
                (arg_max_examples (demo_environment (Some ''sk-1'') passing_services)))"
    by code_simp
  have b: "\<not> display_results (arg_prompt (demo_environment (Some ''sk-1'') demo_services))
             (evaluate_prompt (external (demo_environment (Some ''sk-1'') demo_services))
                (arg_prompt (demo_environment (Some ''sk-1'') demo_services))
                (dataset_name_of (demo_environment (Some ''sk-1'') demo_services))
                (arg_max_examples (demo_environment (Some ''sk-1'') demo_services)))"
    by code_simp
  have c: "\<not> check_env_vars (demo_environment None passing_services)
             (required_vars (demo_environment None passing_services))"
    by code_simp
  show ?thesis
    using a b c
      verdict_and_exit_code [of "[]" all_zero "demo_environment (Some ''sk-1'') passing_services"]
      verdict_and_exit_code [of "[]" all_zero "demo_environment (Some ''sk-1'') demo_services"]
      verdict_and_exit_code [of "[]" all_zero "demo_environment None passing_services"]
    by simp
qed


section \<open>Properties of the Example Runner\<close>

lemma question_probe:
  "dict_get_default d ''question''
     (dict_get_default d ''bug_report'' (dict_get_default d ''pr_title'' (PyStr ''N/A''))) =
   derive_question (PyDict d)"
  by (simp add: dict_get_default_def derive_question_def dict_get_def split: option.splits)

lemma question_not_mapping:
  "(case v of PyDict d \<Rightarrow>
      dict_get_default d ''question''
        (dict_get_default d ''bug_report'' (dict_get_default d ''pr_title'' (PyStr ''N/A'')))
    | _ \<Rightarrow> PyStr ''N/A'') = derive_question v"
  by (cases v) (simp_all add: question_probe, simp_all add: derive_question_def)

lemma reference_lookup:
  "(case v of PyDict d \<Rightarrow> dict_get_default d ''reference'' (PyStr []) | _ \<Rightarrow> PyStr []) =
   derive_reference v"
  by (cases v) (simp_all add: derive_reference_def dict_get_default_def dict_get_def split: option.splits)

text \<open>
  C5, as amended. When the chain returns a response, the question of the result is the
  value under the first present key among \<open>question\<close>, \<open>bug_report\<close>, \<open>pr_title\<close>, and
  \<open>"N/A"\<close> when none is present or the inputs are not a mapping; the reference is the
  value under \<open>reference\<close>, and the empty string when the outputs are not a mapping or
  lack the key; the answer is the content of the response.
\<close>

theorem runner_fields_on_success:
  assumes "llm prompt_template (attr_or_empty (inputs x)) = Inr content"
  shows "question (evaluate_prompt_on_example prompt_template x llm) =
           derive_question (attr_or_empty (inputs x)) \<and>
         reference (evaluate_prompt_on_example prompt_template x llm) =
           derive_reference (attr_or_empty (outputs x)) \<and>
         answer (evaluate_prompt_on_example prompt_template x llm) = content"
  using assms
  by (simp add: evaluate_prompt_on_example_def Let_def question_not_mapping reference_lookup)

theorem runner_fields_on_success_witness:
  "question (evaluate_prompt_on_example [] (demo_example ''Login fails on submit'') (demo_llm 1)) =
     PyStr ''Login fails on submit'' \<and>
   reference (evaluate_prompt_on_example [] (demo_example ''Login fails on submit'') (demo_llm 1)) =
     PyStr ''expected'' \<and>
   answer (evaluate_prompt_on_example [] (demo_example ''Login fails on submit'') (demo_llm 1)) =
     ''story''"
proof -
  have a: "demo_llm 1 [] (attr_or_empty (inputs (demo_example ''Login fails on submit''))) =
           Inr ''story''"
    by (simp add: demo_llm_def demo_example_def attr_or_empty_def)
  have b: "derive_question (attr_or_empty (inputs (demo_example ''Login fails on submit''))) =
           PyStr ''Login fails on submit''"
    by (simp add: derive_question_def demo_example_def attr_or_empty_def dict_get_def)
  have c: "derive_reference (attr_or_empty (outputs (demo_example ''Login fails on submit''))) =
           PyStr ''expected''"
    by (simp add: derive_reference_def demo_example_def attr_or_empty_def dict_get_def)
  show ?thesis
    using runner_fields_on_success
            [of "demo_llm 1" "[]" "demo_example ''Login fails on submit''" "''story''", OF a] b c
    by simp
qed

text \<open>
  C5 as stated fails when the chain raises: the inputs are a mapping with the key
  \<open>bug_report\<close>, and the question of the result is the empty string, not the value
  under that key.
\<close>

theorem runner_question_counterexample:
  "inputs (demo_example ''down'') = Some (PyDict [(''bug_report'', PyStr ''down'')]) \<and>
   question (evaluate_prompt_on_example [] (demo_example ''down'') (demo_llm 1)) = PyStr [] \<and>
   derive_question (attr_or_empty (inputs (demo_example ''down''))) = PyStr ''down'' \<and>
   question (evaluate_prompt_on_example [] (demo_example ''down'') (demo_llm 1)) \<noteq>
   derive_question (attr_or_empty (inputs (demo_example ''down'')))"
  by (simp add: evaluate_prompt_on_example_def demo_example_def demo_llm_def attr_or_empty_def
      derive_question_def dict_get_def)

text \<open>
  C6. When the chain raises on an example, the runner returns the result with three
  empty fields, and the loop goes on to the next example with its four score lists as
  they were: only the log of calls grows.
\<close>

theorem failed_example_is_skipped:
  assumes "llm i prompt_template (attr_or_empty (inputs x)) = Inl e"
  shows "evaluate_prompt_on_example prompt_template x (llm i) =
           \<lparr>answer = [], reference = PyStr [], question = PyStr []\<rparr> \<and>
         eval_loop sv prompt_template llm i (x # rest) s =
           eval_loop sv prompt_template llm (Suc i) rest
             (s\<lparr>runner_calls := runner_calls s @
                  [(i, x, \<lparr>answer = [], reference = PyStr [], question = PyStr []\<rparr>)]\<rparr>)"
proof -
  have r: "evaluate_prompt_on_example prompt_template x (llm i) =
           \<lparr>answer = [], reference = PyStr [], question = PyStr []\<rparr>"
    using assms by (simp add: evaluate_prompt_on_example_def Let_def)
  then have "answer (evaluate_prompt_on_example prompt_template x (llm i)) = []" by simp
  from eval_loop_skip [of prompt_template x llm i, OF this] r show ?thesis by simp
qed

theorem failed_example_is_skipped_witness:
  "evaluate_prompt_on_example [] (demo_example ''down'') (demo_llm 2) =
     \<lparr>answer = [], reference = PyStr [], question = PyStr []\<rparr> \<and>
   eval_loop demo_services [] demo_llm 2 [demo_example ''down''] empty_running =
     (None, empty_running\<lparr>runner_calls :=
        [(2, demo_example ''down'', \<lparr>answer = [], reference = PyStr [], question = PyStr []\<rparr>)]\<rparr>) \<and>
   tone (evaluate_prompt demo_services ''p'' ''d'' 10) = 1"
proof -
  have a: "demo_llm 2 [] (attr_or_empty (inputs (demo_example ''down''))) =
           Inl (OtherException ''timeout'')"
    by (simp add: demo_llm_def demo_example_def attr_or_empty_def)
  have b: "tone (evaluate_prompt demo_services ''p'' ''d'' 10) = 1"
    by code_simp
  show ?thesis
    using failed_example_is_skipped
            [of demo_llm 2 "[]" "demo_example ''down''" "OtherException ''timeout''"
                demo_services "[]" empty_running, OF a] b
    by (simp add: empty_running_def)
qed

section \<open>Properties of the Aggregator\<close>

lemma evaluate_prompt_run_setup_fails:
  "pull_prompt_from_langsmith sv pn = Inl e \<or>
   list_examples sv dn = Inl e \<or> get_llm sv = Inl e \<Longrightarrow>
   evaluate_prompt_run sv pn dn m = (all_zero, [])"
  by (auto simp: evaluate_prompt_run_def split: sum.splits)

lemma evaluate_prompt_run_loop:
  assumes "pull_prompt_from_langsmith sv pn = Inr p" "list_examples sv dn = Inr examples"
    "get_llm sv = Inr llm"
  shows "evaluate_prompt_run sv pn dn m =
         (if fst (eval_loop sv p llm 1 (py_slice_to examples m) empty_running) = None
          then (case aggregate (float_ops sv)
                       (snd (eval_loop sv p llm 1 (py_slice_to examples m) empty_running)) of
                  Inl e \<Rightarrow> all_zero
                | Inr scores \<Rightarrow> scores)
          else all_zero,
          runner_calls (snd (eval_loop sv p llm 1 (py_slice_to examples m) empty_running)))"
  using assms
  by (cases "eval_loop sv p llm 1 (py_slice_to examples m) empty_running")
     (auto simp: evaluate_prompt_run_def split: option.splits sum.splits)








text \<open>
  C3. When \<open>hub.pull\<close> raises, \<open>pull_prompt_from_langsmith\<close> raises the same exception
  again and \<open>evaluate_prompt\<close> returns the scores with all four fields 0.
\<close>

theorem pull_failure_gives_all_zero:
  assumes "hub_pull sv prompt_name = Inl e"
  shows "pull_prompt_from_langsmith sv prompt_name = Inl e \<and>
         evaluate_prompt sv prompt_name dataset_name max_examples =
           \<lparr>tone = 0, acceptance_criteria = 0, format = 0, completeness = 0\<rparr>"
  using assms
  by (simp add: evaluate_prompt_def evaluate_prompt_run_def pull_prompt_from_langsmith_def
      all_zero_def)

theorem pull_failure_gives_all_zero_witness:
  "hub_pull (demo_services\<lparr>hub_pull := (\<lambda>n. Inl (OtherException ''404 not found''))\<rparr>) ''p'' =
     Inl (OtherException ''404 not found'') \<and>
   evaluate_prompt (demo_services\<lparr>hub_pull := (\<lambda>n. Inl (OtherException ''404 not found''))\<rparr>)
     ''p'' ''d'' 10 =
     \<lparr>tone = 0, acceptance_criteria = 0, format = 0, completeness = 0\<rparr>"
proof -
  have a: "hub_pull (demo_services\<lparr>hub_pull := (\<lambda>n. Inl (OtherException ''404 not found''))\<rparr>) ''p'' =
           Inl (OtherException ''404 not found'')"
    by simp
  show ?thesis
    using pull_failure_gives_all_zero [OF a, of "''d''" 10] a by simp
qed

text \<open>
  C7, as amended. The examples the runner is called on form a prefix of the sequence
  that the dataset client returned, in its order; and for a maximum that is not
  negative there are at most that many of them.
\<close>

theorem runner_calls_prefix:
  assumes "list_examples sv dataset_name = Inr examples"
  shows "prefix (map (\<lambda>c. fst (snd c)) (run_calls sv prompt_name dataset_name max_examples))
           examples \<and>
         (0 \<le> max_examples \<longrightarrow>
            int (length (run_calls sv prompt_name dataset_name max_examples)) \<le> max_examples)"
proof (cases "(\<exists>e. pull_prompt_from_langsmith sv prompt_name = Inl e) \<or> (\<exists>e. get_llm sv = Inl e)")
  case True
  then have "evaluate_prompt_run sv prompt_name dataset_name max_examples = (all_zero, [])"
    using evaluate_prompt_run_setup_fails by blast
  then show ?thesis by (simp add: run_calls_def)
next
  case False
  then obtain p llm where
    ok: "pull_prompt_from_langsmith sv prompt_name = Inr p" "get_llm sv = Inr llm"
    by (metis sum.exhaust)
  let ?xs = "py_slice_to examples max_examples"
  obtain ys where ys: "loop_stops_at sv p llm 1 ?xs empty_running ys"
    using eval_loop_calls by blast
  have calls: "run_calls sv prompt_name dataset_name max_examples = runner_trace p llm 1 ys"
    using ys evaluate_prompt_run_loop [OF ok(1) assms ok(2), of max_examples]
    by (simp add: run_calls_def loop_stops_at_def empty_running_def)
  from ys have pre: "prefix ys ?xs" by (simp add: loop_stops_at_def)
  then have "prefix ys examples"
    using prefix_py_slice_to prefix_order.trans by blast
  moreover have "0 \<le> max_examples \<longrightarrow> int (length ys) \<le> max_examples"
  proof
    assume "0 \<le> max_examples"
    then have "int (length ?xs) \<le> max_examples" by (rule length_py_slice_to)
    moreover have "length ys \<le> length ?xs" using pre by (rule prefix_length_le)
    ultimately show "int (length ys) \<le> max_examples" by simp
  qed
  ultimately show ?thesis
    by (simp add: calls runner_trace_examples runner_trace_length)
qed

theorem runner_calls_prefix_witness:
  "list_examples demo_services ''d'' =
     Inr [demo_example ''a'', demo_example ''down'', demo_example ''c''] \<and>
   map (\<lambda>c. fst (snd c)) (run_calls demo_services ''p'' ''d'' 2) =
     [demo_example ''a'', demo_example ''down''] \<and>
   prefix (map (\<lambda>c. fst (snd c)) (run_calls demo_services ''p'' ''d'' 2))
     [demo_example ''a'', demo_example ''down'', demo_example ''c''] \<and>
   int (length (run_calls demo_services ''p'' ''d'' 2)) \<le> 2"
proof -
  have a: "list_examples demo_services ''d'' =
           Inr [demo_example ''a'', demo_example ''down'', demo_example ''c'']"
    by (simp add: demo_services_def)
  have b: "map (\<lambda>c. fst (snd c)) (run_calls demo_services ''p'' ''d'' 2) =
           [demo_example ''a'', demo_example ''down'']"
    by code_simp
  show ?thesis
    using runner_calls_prefix [OF a, of "''p''" 2] a b by simp
qed

text \<open>
  C7 as stated fails for a negative maximum: with three examples in the dataset and
  \<open>max_examples = -1\<close> the slice drops the last example, the runner is called on the
  first two, and two is more than the maximum.
\<close>

theorem negative_max_examples_counterexample:
  "list_examples demo_services ''d'' =
     Inr [demo_example ''a'', demo_example ''down'', demo_example ''c''] \<and>
   map (\<lambda>c. fst (snd c)) (run_calls demo_services ''p'' ''d'' (- 1)) =
     [demo_example ''a'', demo_example ''down''] \<and>
   \<not> int (length (run_calls demo_services ''p'' ''d'' (- 1))) \<le> - 1"
proof -
  have a: "list_examples demo_services ''d'' =
           Inr [demo_example ''a'', demo_example ''down'', demo_example ''c'']"
    by (simp add: demo_services_def)
  have b: "map (\<lambda>c. fst (snd c)) (run_calls demo_services ''p'' ''d'' (- 1)) =
           [demo_example ''a'', demo_example ''down'']"
    by code_simp
  have c: "length (run_calls demo_services ''p'' ''d'' (- 1)) = 2"
    by code_simp
  show ?thesis using a b c by simp
qed

section \<open>The credential in the output of main\<close>

text \<open>
  C9. When \<open>OPENAI_API_KEY\<close> is set, the second line that \<open>main\<close> prints ends with the
  value of the variable, and it is printed before \<open>check_env_vars\<close> is called. So two
  runs whose environments differ only in that value print different output, whatever
  either prints later.
\<close>

theorem credential_is_printed:
  assumes "environ env ''OPENAI_API_KEY'' = Some key"
  shows "events_head (main env) =
           [Print (''Executando avalia'' @ [CHR 0xE7, CHR 0xE3] @ ''o dos prompts...''),
            Print (''a chave openai '' @ [CHR 0xE9] @ ''  '' @ key),
            CheckEnvVars (required_vars env)] \<and>
         (\<forall>key' rest rest'. key' \<noteq> key \<longrightarrow>
            events_head (main env) @ rest \<noteq>
            events_head (main (env\<lparr>environ := (environ env)(''OPENAI_API_KEY'' \<mapsto> key')\<rparr>)) @ rest')"
  using assms
  by (simp add: main_def main_events_head_def str_getenv_def)


theorem credential_is_printed_witness:
  "events_head (main (demo_environment (Some ''sk-1'') demo_services)) =
     [Print (''Executando avalia'' @ [CHR 0xE7, CHR 0xE3] @ ''o dos prompts...''),
      Print (''a chave openai '' @ [CHR 0xE9] @ ''  sk-1''),
      CheckEnvVars [''LANGSMITH_API_KEY'', ''LLM_PROVIDER'', ''OPENAI_API_KEY'']] \<and>
   events_head (main (demo_environment (Some ''sk-1'') demo_services)) \<noteq>
   events_head (main ((demo_environment (Some ''sk-1'') demo_services)
     \<lparr>environ := (environ (demo_environment (Some ''sk-1'') demo_services))
                    (''OPENAI_API_KEY'' \<mapsto> ''sk-2'')\<rparr>))"
proof -
  have a: "environ (demo_environment (Some ''sk-1'') demo_services) ''OPENAI_API_KEY'' = Some ''sk-1''"
    by (simp add: demo_environment_def)
  have b: "required_vars (demo_environment (Some ''sk-1'') demo_services) =
           [''LANGSMITH_API_KEY'', ''LLM_PROVIDER'', ''OPENAI_API_KEY'']"
    by (simp add: required_vars_def getenv_default_def demo_environment_def)
  have c: "''sk-2'' \<noteq> ''sk-1''" by simp
  note d = credential_is_printed [OF a, THEN conjunct1]
  note e = credential_is_printed [OF a, THEN conjunct2, rule_format, OF c, of "[]" "[]"]
  from d b e show ?thesis by simp
qed

section \<open>Properties of validate_prompt\<close>

lemma has_system_loop_well_formed:
  "list_all well_formed_message ms \<Longrightarrow> has_system_loop ms = Inr (list_ex has_system_role ms)"
proof (induction ms)
  case Nil
  then show ?case by simp
next
  case (Cons m ms)
  then obtain d where "m = PyDict d"
    by (cases m) (simp_all add: well_formed_message_def)
  with Cons show ?case by (simp add: has_system_role_def)
qed

lemma content_loop_well_formed:
  "list_all well_formed_message ms \<Longrightarrow>
   content_loop i ms errors =
     Inr (errors @ map (\<lambda>im. EmptyMessage (fst im))
            (filter (\<lambda>im. strip (content_text (snd im)) = []) (enumerate i ms)))"
proof (induction ms arbitrary: i errors)
  case Nil
  then show ?case by simp
next
  case (Cons m ms)
  then obtain d where d: "m = PyDict d"
    by (cases m) (simp_all add: well_formed_message_def)
  from Cons.prems have rest: "list_all well_formed_message ms" by simp
  show ?case
  proof (cases "dict_get d ''content''")
    case None
    then have "dict_get_default d ''content'' (PyStr []) = PyStr []" "content_text m = []"
      by (simp_all add: d dict_get_default_def dict_get_def content_text_def)
    then show ?thesis
      using Cons.IH [OF rest] by (simp add: d strip_def)
  next
    case (Some v)
    with Cons.prems d obtain c where c: "v = PyStr c"
      by (cases v) (simp_all add: well_formed_message_def)
    with Some have "dict_get_default d ''content'' (PyStr []) = PyStr c" "content_text m = c"
      by (simp_all add: d dict_get_default_def dict_get_def content_text_def)
    then show ?thesis
      using Cons.IH [OF rest] by (simp add: d)
  qed
qed

lemma well_formed_prompt_messages:
  assumes "well_formed_prompt prompt_data"
  shows "dict_get_default prompt_data ''messages'' (PyList []) = PyList (messages_of prompt_data) \<and>
         list_all well_formed_message (messages_of prompt_data)"
proof (cases "dict_get prompt_data ''messages''")
  case None
  then show ?thesis
    by (simp add: dict_get_default_def dict_get_def messages_of_def)
next
  case (Some v)
  with assms obtain ms where "v = PyList ms" "list_all well_formed_message ms"
    by (cases v) (simp_all add: well_formed_prompt_def)
  with Some show ?thesis
    by (simp add: dict_get_default_def dict_get_def messages_of_def)
qed

lemma violations_empty_iff:
  "violations prompt_data = [] \<longleftrightarrow>
     messages_of prompt_data \<noteq> [] \<and> list_ex has_system_role (messages_of prompt_data) \<and>
     list_all (\<lambda>m. strip (content_text m) \<noteq> []) (messages_of prompt_data)"
proof -
  have "filter (\<lambda>im. strip (content_text (snd im)) = []) (enumerate i ms) = [] \<longleftrightarrow>
        list_all (\<lambda>m. strip (content_text m) \<noteq> []) ms" for i and ms :: "pyval list"
    by (induction ms arbitrary: i) simp_all
  then show ?thesis
    by (simp add: violations_def Let_def)
qed

text \<open>
  C10, as amended. For prompt data whose \<open>messages\<close>, when present, is a list of
  mappings whose content, when present, is a string, \<open>validate_prompt\<close> does not raise:
  it returns the list of violations, one diagnostic per violated condition, and
  \<open>True\<close> exactly when the list is empty; and the list is empty exactly when there is
  a message, some message has the role \<open>system\<close>, and the content of every message is
  non-empty once stripped.
\<close>

theorem validate_prompt_well_formed:
  assumes "well_formed_prompt prompt_data"
  shows "validate_prompt prompt_data = Inr (violations prompt_data = [], violations prompt_data) \<and>
         (violations prompt_data = [] \<longleftrightarrow>
            messages_of prompt_data \<noteq> [] \<and>
            list_ex has_system_role (messages_of prompt_data) \<and>
            list_all (\<lambda>m. strip (content_text m) \<noteq> []) (messages_of prompt_data))"
proof -
  from well_formed_prompt_messages [OF assms] have
    get: "dict_get_default prompt_data ''messages'' (PyList []) = PyList (messages_of prompt_data)"
    and wf: "list_all well_formed_message (messages_of prompt_data)"
    by simp_all
  have "validate_prompt prompt_data = Inr (violations prompt_data = [], violations prompt_data)"
    unfolding validate_prompt_def get
    by (simp add: has_system_loop_well_formed [OF wf] content_loop_well_formed [OF wf]
        violations_def Let_def)
  with violations_empty_iff show ?thesis by blast
qed

theorem validate_prompt_well_formed_witness:
  "well_formed_prompt demo_prompt_data \<and>
   validate_prompt demo_prompt_data = Inr (True, []) \<and>
   validate_prompt [(''messages'', PyList [PyDict [(''role'', PyStr ''human''), (''content'', PyStr '' '')]])] =
     Inr (False, [NoSystemPrompt, EmptyMessage 0])"
proof -
  have a: "well_formed_prompt demo_prompt_data" by code_simp
  have b: "violations demo_prompt_data = []" by code_simp
  have c: "well_formed_prompt
             [(''messages'', PyList [PyDict [(''role'', PyStr ''human''), (''content'', PyStr '' '')]])]"
    by code_simp
  have d: "violations
             [(''messages'', PyList [PyDict [(''role'', PyStr ''human''), (''content'', PyStr '' '')]])] =
           [NoSystemPrompt, EmptyMessage 0]"
    by code_simp
  show ?thesis
    using validate_prompt_well_formed [OF a] validate_prompt_well_formed [OF c] a b d by simp
qed

text \<open>
  C10 as stated fails on a dictionary that YAML gives for a message with the key
  \<open>content\<close> and no value: the content is \<open>None\<close> and \<open>validate_prompt\<close> raises.
\<close>

theorem validate_prompt_raises_counterexample:
  "validate_prompt
     [(''messages'', PyList [PyDict [(''role'', PyStr ''system''), (''content'', PyNone)]])] =
   Inl AttributeError"
  by code_simp

section \<open>Properties of the push and pull round trip\<close>

lemma role_of_class:
  "r \<in> set [''system'', ''human'', ''ai''] \<Longrightarrow>
   lower (replace ''Message'' [] (replace ''MessagePromptTemplate'' [] (role_class r))) = r"
proof -
  have s: "lower (replace ''Message'' [] (replace ''MessagePromptTemplate'' []
             ''SystemMessagePromptTemplate'')) = ''system''"
    by code_simp
  have h: "lower (replace ''Message'' [] (replace ''MessagePromptTemplate'' []
             ''HumanMessagePromptTemplate'')) = ''human''"
    by code_simp
  have a: "lower (replace ''Message'' [] (replace ''MessagePromptTemplate'' []
             ''AIMessagePromptTemplate'')) = ''ai''"
    by code_simp
  assume "r \<in> set [''system'', ''human'', ''ai'']"
  then consider "r = ''system''" | "r = ''human''" | "r = ''ai''" by auto
  then show ?thesis
  proof cases
    case 1 with s show ?thesis by (simp add: role_class_def)
  next
    case 2 with h show ?thesis by (simp add: role_class_def)
  next
    case 3 with a show ?thesis by (simp add: role_class_def)
  qed
qed

lemma chat_message_fields:
  assumes "chat_message m"
  obtains d where "m = PyDict d"
    "dict_get_default d ''role'' (PyStr ''system'') = PyStr (message_role m)"
    "dict_get_default d ''content'' (PyStr []) = PyStr (content_text m)"
    "message_role m \<in> set [''system'', ''human'', ''ai'']"
proof -
  from assms obtain d where d: "m = PyDict d"
    by (cases m) (simp_all add: chat_message_def)
  from assms d obtain rv where rv: "dict_get d ''role'' = Some rv"
    by (cases "dict_get d ''role''") (simp_all add: chat_message_def)
  from assms d rv obtain r where r: "rv = PyStr r"
    by (cases rv) (simp_all add: chat_message_def)
  from assms d rv r have rin: "r \<in> set [''system'', ''human'', ''ai'']"
    and c0: "(case dict_get d ''content'' of Some (PyStr c) \<Rightarrow> True | _ \<Rightarrow> False)"
    by (simp_all add: chat_message_def)
  from c0 obtain cv where cv: "dict_get d ''content'' = Some cv"
    by (cases "dict_get d ''content''") simp_all
  from c0 cv obtain c where c: "cv = PyStr c"
    by (cases cv) simp_all
  show thesis
  proof (rule that [OF d])
    show "dict_get_default d ''role'' (PyStr ''system'') = PyStr (message_role m)"
      using rv r d by (simp add: dict_get_default_def dict_get_def message_role_def)
    show "dict_get_default d ''content'' (PyStr []) = PyStr (content_text m)"
      using cv c d by (simp add: dict_get_default_def dict_get_def content_text_def)
    show "message_role m \<in> set [''system'', ''human'', ''ai'']"
      using rv r d rin by (simp add: message_role_def)
  qed
qed

lemma build_messages_chat:
  "list_all chat_message ms \<Longrightarrow>
   build_messages ms messages = Inr (messages @ map pair_values ms)"
proof (induction ms arbitrary: messages)
  case Nil
  then show ?case by simp
next
  case (Cons m ms)
  from Cons.prems have "chat_message m" and rest: "list_all chat_message ms" by simp_all
  from \<open>chat_message m\<close> obtain d where d: "m = PyDict d"
    and role: "dict_get_default d ''role'' (PyStr ''system'') = PyStr (message_role m)"
    and content: "dict_get_default d ''content'' (PyStr []) = PyStr (content_text m)"
    by (rule chat_message_fields)
  show ?case
    unfolding d build_messages.simps pyval.case role content Let_def
    using Cons.IH [OF rest] by (auto simp: pair_values_def d [symmetric])
qed

lemma role_pair_values: "chat_message m \<Longrightarrow> role_pair (pair_values m)"
  by (erule chat_message_fields) (simp add: role_pair_def pair_values_def)

lemma serialize_built:
  assumes "built_from (pair_values m) mt" "chat_message m"
  shows "serialize_message mt = Inr (message_pair m)"
proof -
  from assms(2) have r: "message_role m \<in> set [''system'', ''human'', ''ai'']"
    by (rule chat_message_fields)
  from assms(1) have "class_name mt = role_class (message_role m)"
    "prompt mt = Some (StringPrompt (content_text m))"
    by (simp_all add: built_from_def pair_values_def)
  then show ?thesis
    using role_of_class [OF r] by (simp add: serialize_message_def message_pair_def)
qed

lemma serialize_loop_built:
  "list_all2 built_from (map pair_values ms) t \<Longrightarrow> list_all chat_message ms \<Longrightarrow>
   serialize_loop t messages = Inr (messages @ map message_pair ms)"
proof (induction ms arbitrary: t messages)
  case Nil
  then show ?case by simp
next
  case (Cons m ms)
  from Cons.prems(1) obtain mt rest where t: "t = mt # rest"
    and mt: "built_from (pair_values m) mt"
    and rest: "list_all2 built_from (map pair_values ms) rest"
    by (auto simp: list_all2_Cons1)
  from Cons.prems(2) have m: "chat_message m" and ms: "list_all chat_message ms" by simp_all
  show ?case
    unfolding t
    using serialize_built [OF mt m] Cons.IH [OF rest ms] by simp
qed


lemma demo_library_builds_role_classes: "builds_role_classes (from_messages demo_library)"
proof -
  have "list_all role_pair pairs \<Longrightarrow> list_all2 built_from pairs (map demo_build pairs)" for pairs
  proof (induction pairs)
    case Nil
    then show ?case by simp
  next
    case (Cons rc pairs)
    then have "role_pair rc" by simp
    then have "built_from rc (demo_build rc)"
      by (auto simp: role_pair_def built_from_def demo_build_def split: prod.splits pyval.splits)
    with Cons show ?case by simp
  qed
  then show ?thesis
    by (auto simp: builds_role_classes_def demo_library_def split: if_splits)
qed

text \<open>
  C8. Let the prompt library build, for the roles \<open>system\<close>, \<open>human\<close> and \<open>ai\<close>, one
  message template per pair, of the class named after the role and with the content
  as its template. For prompt data whose messages all carry one of these roles and a
  string content, if the push returns \<open>True\<close> and the pull from the registry it leaves
  returns \<open>True\<close>, the messages the pull saves are the roles and contents of the
  pushed messages, as many and in the same order.
\<close>

theorem push_pull_round_trip:
  assumes lib: "builds_role_classes (from_messages lib)"
    and msgs: "dict_get prompt_data ''messages'' = Some (PyList ms)" "list_all chat_message ms"
    and pushed: "push_prompt_to_langsmith lib h prompt_name prompt_data = (True, h')"
    and pulled: "pull_prompts_from_langsmith env lib h' prompt_name output_dir = (True, Some saved)"
  shows "pd_messages saved = map message_pair ms \<and> length (pd_messages saved) = length ms"
proof -
  have get: "dict_get_default prompt_data ''messages'' (PyList []) = PyList ms"
    using msgs(1) by (simp add: dict_get_default_def dict_get_def)
  have built: "build_messages ms [] = Inr (map pair_values ms)"
    using build_messages_chat [OF msgs(2), of "[]"] by simp
  from pushed have "push_try lib h prompt_name prompt_data = Inr (Some h')"
    by (auto simp: push_prompt_to_langsmith_def split: sum.splits option.splits)
  then obtain t where t: "from_messages lib (map pair_values ms) = Inr t"
    and h': "h' = h(prompt_name \<mapsto> ChatPromptEntry t)"
    using get built
    by (auto simp: push_try_def split: sum.splits option.splits if_splits)
  have "list_all role_pair (map pair_values ms)"
    using msgs(2) by (induction ms) (simp_all add: role_pair_values)
  with lib t have rel: "list_all2 built_from (map pair_values ms) t"
    unfolding builds_role_classes_def by blast
  have ser: "serialize_loop t [] = Inr (map message_pair ms)"
    using serialize_loop_built [OF rel msgs(2), of "[]"] by simp
  from pulled have "pull_try env lib h' prompt_name output_dir = Inr (Some saved)"
    by (auto simp: pull_prompts_from_langsmith_def split: sum.splits option.splits)
  then have "pd_messages saved = map message_pair ms"
    using ser
    by (auto simp: pull_try_def h' Let_def split: if_splits option.splits)
  then show ?thesis by simp
qed

theorem push_pull_round_trip_witness:
  "push_prompt_to_langsmith demo_library Map.empty ''owner/prompt'' demo_prompt_data =
     (True, Map.empty(''owner/prompt'' \<mapsto> ChatPromptEntry (map demo_build
        [(PyStr ''system'', PyStr ''You are a product manager.''),
         (PyStr ''human'', PyStr ''{bug_report}''),
         (PyStr ''ai'', PyStr ''As a user, I want ...'')]))) \<and>
   pull_prompts_from_langsmith demo_pull_environment demo_library
     (Map.empty(''owner/prompt'' \<mapsto> ChatPromptEntry (map demo_build
        [(PyStr ''system'', PyStr ''You are a product manager.''),
         (PyStr ''human'', PyStr ''{bug_report}''),
         (PyStr ''ai'', PyStr ''As a user, I want ...'')])))
     ''owner/prompt'' ''prompts'' =
     (True, Some \<lparr>pd_name = ''prompt'', pd_owner = ''owner'',
                  pd_messages = [(''system'', ''You are a product manager.''),
                                 (''human'', ''{bug_report}''),
                                 (''ai'', ''As a user, I want ...'')]\<rparr>)"
proof -
  let ?t = "map demo_build
        [(PyStr ''system'', PyStr ''You are a product manager.''),
         (PyStr ''human'', PyStr ''{bug_report}''),
         (PyStr ''ai'', PyStr ''As a user, I want ...'')]"
  let ?h = "Map.empty(''owner/prompt'' \<mapsto> ChatPromptEntry ?t)"
  have a: "dict_get demo_prompt_data ''messages'' = Some (PyList demo_messages)"
    by (simp add: dict_get_def demo_prompt_data_def)
  have b: "list_all chat_message demo_messages"
    by code_simp
  have c: "push_prompt_to_langsmith demo_library Map.empty ''owner/prompt'' demo_prompt_data =
           (True, ?h)"
    by (simp add: push_prompt_to_langsmith_def push_try_def demo_prompt_data_def demo_messages_def
        demo_library_def dict_get_default_def role_pair_def push_tags_def push_description_def)
  have n: "pd_name (the (snd (pull_prompts_from_langsmith demo_pull_environment demo_library ?h
             ''owner/prompt'' ''prompts''))) = ''prompt''"
    by code_simp
  have o: "pd_owner (the (snd (pull_prompts_from_langsmith demo_pull_environment demo_library ?h
             ''owner/prompt'' ''prompts''))) = ''owner''"
    by code_simp
  have ok: "fst (pull_prompts_from_langsmith demo_pull_environment demo_library ?h
             ''owner/prompt'' ''prompts'')"
    by code_simp
  have some: "snd (pull_prompts_from_langsmith demo_pull_environment demo_library ?h
             ''owner/prompt'' ''prompts'') \<noteq> None"
    by code_simp
  then obtain saved where d: "pull_prompts_from_langsmith demo_pull_environment demo_library ?h
             ''owner/prompt'' ''prompts'' = (True, Some saved)"
    using ok by (cases "pull_prompts_from_langsmith demo_pull_environment demo_library ?h
             ''owner/prompt'' ''prompts''") auto
  have e: "map message_pair demo_messages =
           [(''system'', ''You are a product manager.''), (''human'', ''{bug_report}''),
            (''ai'', ''As a user, I want ...'')]"
    by code_simp
  from push_pull_round_trip [OF demo_library_builds_role_classes a b c d] e
  have "pd_messages saved = [(''system'', ''You are a product manager.''),
          (''human'', ''{bug_report}''), (''ai'', ''As a user, I want ...'')]"
    by simp
  moreover from n o d have "pd_name saved = ''prompt''" "pd_owner saved = ''owner''" by simp_all
  ultimately have "saved = \<lparr>pd_name = ''prompt'', pd_owner = ''owner'',
                  pd_messages = [(''system'', ''You are a product manager.''),
                                 (''human'', ''{bug_report}''),
                                 (''ai'', ''As a user, I want ...'')]\<rparr>"
    by (cases saved) simp
  with c d show ?thesis by simp
qed

end
